theory Spec2Isabelle
  imports Main
begin

section \<open>The image definition script \<^verbatim>\<open>nvs-bench/image.py\<close>\<close>

text \<open>
  The script is straight-line module code: it reads the name of the current working
  directory, asserts that it is not \<^verbatim>\<open>nvs-bench\<close>, asks for the named volume and then
  builds an image description by a chain of builder calls. The model takes the working
  directory as its input and returns the calls made to the image-building library, in
  order, together with either the raised error or the module's globals.
\<close>

subsection \<open>Paths: \<^verbatim>\<open>Path.cwd().name\<close>\<close>

text \<open>
  \<^verbatim>\<open>str.split(sep)\<close> for a one-character separator: the pieces between the separators,
  empty pieces included. The result is never empty, so the first branch of the \<open>case\<close>
  below is never taken.
\<close>

fun str_split :: "char \<Rightarrow> string \<Rightarrow> string list" where
  "str_split sep [] = [[]]"
| "str_split sep (c # cs) =
     (if c = sep then [] # str_split sep cs
      else (case str_split sep cs of [] \<Rightarrow> [[c]] | w # ws \<Rightarrow> (c # w) # ws))"

text \<open>
  The components of a POSIX path as \<^verbatim>\<open>pathlib\<close> parses them, without the anchor: empty
  components and \<^verbatim>\<open>.\<close> are dropped, \<^verbatim>\<open>..\<close> is kept.
\<close>

definition parts :: "string \<Rightarrow> string list" where
  "parts p = filter (\<lambda>c. c \<noteq> [] \<and> c \<noteq> ''.'') (str_split CHR ''/'' p)"

definition anchor :: "string \<Rightarrow> string" where
  "anchor p = (case p of [] \<Rightarrow> [] | c # _ \<Rightarrow> if c = CHR ''/'' then ''/'' else [])"

text \<open>\<^verbatim>\<open>PurePath.name\<close>: the final component, or the empty string when there is none.\<close>

definition path_name :: "string \<Rightarrow> string" where
  "path_name p = (if parts p = [] then [] else last (parts p))"

text \<open>Two path strings denote the same path when anchor and components agree.\<close>

definition same_path :: "string \<Rightarrow> string \<Rightarrow> bool" where
  "same_path p q = (anchor p = anchor q \<and> parts p = parts q)"

subsection \<open>The builder: volumes and images\<close>

record Volume =
  volume_name :: string
  create_if_missing :: bool

text \<open>
  An image is the base it was taken from followed by the builder calls applied to it, in
  order. Each builder method returns a new image and leaves its receiver unchanged.
\<close>

datatype layer =
    FromRegistry string string
  | Env "(string \<times> string) list"
  | RunCommands "string list"
  | Workdir string

type_synonym Image = "layer list"

definition from_registry :: "string \<Rightarrow> string \<Rightarrow> Image" where
  "from_registry tag add_python = [FromRegistry tag add_python]"

definition env :: "(string \<times> string) list \<Rightarrow> Image \<Rightarrow> Image" where
  "env vars img = img @ [Env vars]"

definition run_commands :: "string list \<Rightarrow> Image \<Rightarrow> Image" where
  "run_commands cmds img = img @ [RunCommands cmds]"

definition workdir :: "string \<Rightarrow> Image \<Rightarrow> Image" where
  "workdir path img = img @ [Workdir path]"

subsection \<open>The module\<close>

datatype error = AssertionError string

datatype call = Volume_from_name string bool | Image_call layer

record globals =
  method_name :: string
  nvs_bench_volume :: Volume
  modal_volumes :: "(string \<times> Volume) list"
  image :: Image

definition assert_message :: string where
  \<open>assert_message = ''nvs-bench must be called from the method's directory, not the nvs-bench subdirectory. Eg: `modal run nvs-bench/image.py`.''\<close>

text \<open>
  The expression bound to \<^verbatim>\<open>image\<close>, as a function of \<^verbatim>\<open>method_name\<close>: the builder calls
  of the source in their order, each applied to the image returned by the one before.
  A backslash at the end of a line inside a Python string literal joins the next line,
  whose leading blanks stay in the string.
\<close>

definition image_expr :: "string \<Rightarrow> Image" where
  \<open>image_expr = (\<lambda>method_name. foldl (\<lambda>img f. f img)
     (from_registry ''nvidia/cuda:12.8.0-devel-ubuntu24.04'' ''3.12'')
     [ env [ (''TORCH_CUDA_ARCH_LIST'', ''7.5;8.0;8.9;9.0''),
             (''DEBIAN_FRONTEND'', ''noninteractive''),
             (''TZ'', ''America/New_York'') ],
       run_commands [''apt-get update && apt-get install -y             openssh-server             git             wget             unzip             build-essential             ninja-build             libglew-dev             libassimp-dev             libboost-all-dev             libgtk-3-dev             libopencv-dev             libglfw3-dev             libavdevice-dev             libavcodec-dev             libeigen3-dev             libtbb-dev             libopenexr-dev             libxi-dev             libxrandr-dev             libxxf86vm-dev             libxxf86dga-dev             libxxf86vm-dev''],
       run_commands [''apt-get install -y apt-transport-https ca-certificates gnupg curl''],
       run_commands [''echo "deb [signed-by=/usr/share/keyrings/cloud.google.gpg] https://packages.cloud.google.com/apt cloud-sdk main" | tee -a /etc/apt/sources.list.d/google-cloud-sdk.list && curl https://packages.cloud.google.com/apt/doc/apt-key.gpg | gpg --dearmor -o /usr/share/keyrings/cloud.google.gpg && apt-get update -y && apt-get install google-cloud-cli -y''],
       run_commands [''pip config set global.break-system-packages true''],
       run_commands [''pip install gpu_tracker''],
       workdir (''/root/'' @ method_name),
       run_commands [''apt-get install -y build-essential libmpfr-dev libgmp3-dev libmpc-dev''],
       run_commands [''apt-get install -y gcc-14 g++-14 gfortran-14''],
       run_commands [''update-alternatives --install /usr/bin/gcc gcc /usr/bin/gcc-14 60''],
       run_commands [''update-alternatives --install /usr/bin/g++ g++ /usr/bin/g++-14 60''],
       run_commands [''update-alternatives --config gcc''],
       run_commands [''update-alternatives --config g++''],
       run_commands [''git clone https://github.com/N-Demir/LichtFeld-Studio.git --recursive .''],
       run_commands [''apt-get install -y curl zip tar''],
       run_commands [''git clone https://github.com/microsoft/vcpkg.git''],
       run_commands [''cd vcpkg && ./bootstrap-vcpkg.sh -disableMetrics && cd ..''],
       env [(''VCPKG_ROOT'', ''/root/LichtFeld-Studio/vcpkg'')],
       run_commands [''wget https://download.pytorch.org/libtorch/cu128/libtorch-cxx11-abi-shared-with-deps-2.7.1%2Bcu128.zip &&         unzip libtorch-cxx11-abi-shared-with-deps-2.7.1+cu128.zip -d external/ &&         rm libtorch-cxx11-abi-shared-with-deps-2.7.1+cu128.zip''],
       run_commands [''wget https://github.com/Kitware/CMake/releases/download/v4.0.3/cmake-4.0.3-linux-x86_64.sh &&         chmod +x cmake-4.0.3-linux-x86_64.sh &&         ./cmake-4.0.3-linux-x86_64.sh --skip-license --prefix=/usr/local &&         rm cmake-4.0.3-linux-x86_64.sh''],
       run_commands [''cmake -B build -DCMAKE_BUILD_TYPE=Release -G Ninja -DCMAKE_CXX_FLAGS='-march=x86-64 -mtune=generic'' @ [CHR 0x27]],
       run_commands [''cmake --build build -- -j$(nproc)''] ])\<close>

text \<open>
  The module body. \<open>debug\<close> is the interpreter's \<^verbatim>\<open>__debug__\<close>: it is true by default and
  false under \<^verbatim>\<open>python -O\<close> or \<^verbatim>\<open>PYTHONOPTIMIZE\<close>, where an \<^verbatim>\<open>assert\<close> statement is
  skipped altogether. A failing \<^verbatim>\<open>assert\<close> raises before anything after it runs, so no
  call has been made then.
\<close>

definition script :: "bool \<Rightarrow> string \<Rightarrow> call list \<times> (error + globals)" where
  "script debug cwd =
     (let method_name = path_name cwd in
      if debug \<and> \<not> (method_name \<noteq> ''nvs-bench'')
      then ([], Inl (AssertionError assert_message))
      else
        let nvs_bench_volume = \<lparr>volume_name = ''nvs-bench'', create_if_missing = True\<rparr>;
            modal_volumes = [(''/nvs-bench'', nvs_bench_volume)];
            image = image_expr method_name
        in (Volume_from_name ''nvs-bench'' True # map Image_call image,
            Inr \<lparr>method_name = method_name, nvs_bench_volume = nvs_bench_volume,
                 modal_volumes = modal_volumes, image = image\<rparr>))"

subsection \<open>What an image description means\<close>

text \<open>
  The working directory of an image is the one set by its latest \<^verbatim>\<open>workdir\<close> call; a
  relative path is taken from the directory in force before. \<open>wd\<close> is the working
  directory of the base image.
\<close>

fun image_workdir :: "string \<Rightarrow> Image \<Rightarrow> string" where
  "image_workdir wd [] = wd"
| "image_workdir wd (Workdir p # ls) =
     image_workdir (if anchor p = ''/'' then p else wd @ ''/'' @ p) ls"
| "image_workdir wd (l # ls) = image_workdir wd ls"

text \<open>The environment of an image: a later binding of a name replaces an earlier one.\<close>

fun image_env :: "(string \<rightharpoonup> string) \<Rightarrow> Image \<Rightarrow> (string \<rightharpoonup> string)" where
  "image_env e [] = e"
| "image_env e (Env vars # ls) = image_env (foldl (\<lambda>m (k, v). m(k \<mapsto> v)) e vars) ls"
| "image_env e (l # ls) = image_env e ls"

text \<open>Every command of the image with the directory it runs in.\<close>

fun run_dirs :: "string \<Rightarrow> Image \<Rightarrow> (string \<times> string) list" where
  "run_dirs wd [] = []"
| "run_dirs wd (Workdir p # ls) =
     run_dirs (if anchor p = ''/'' then p else wd @ ''/'' @ p) ls"
| "run_dirs wd (RunCommands cmds # ls) = map (\<lambda>c. (wd, c)) cmds @ run_dirs wd ls"
| "run_dirs wd (l # ls) = run_dirs wd ls"

text \<open>
  The vcpkg checkout: \<^verbatim>\<open>git clone <url>/vcpkg.git\<close> without a target creates the
  directory \<^verbatim>\<open>vcpkg\<close> in the directory the command runs in.
\<close>

definition vcpkg_checkout :: "string \<Rightarrow> Image \<Rightarrow> string option" where
  "vcpkg_checkout wd img =
     map_option (\<lambda>(d, c). d @ ''/vcpkg'')
       (find (\<lambda>(d, c). c = ''git clone https://github.com/microsoft/vcpkg.git'') (run_dirs wd img))"

text \<open>
  Whether the \<^verbatim>\<open>VCPKG_ROOT\<close> of the image names the directory of the vcpkg checkout.
  \<open>e\<close> is the environment of the base image.
\<close>

definition vcpkg_root_points_at_checkout ::
  "string \<Rightarrow> (string \<rightharpoonup> string) \<Rightarrow> Image \<Rightarrow> bool" where
  "vcpkg_root_points_at_checkout wd e img =
     (case (image_env e img ''VCPKG_ROOT'', vcpkg_checkout wd img) of
        (Some r, Some d) \<Rightarrow> same_path r d
      | _ \<Rightarrow> False)"

section \<open>Properties\<close>

subsection \<open>Splitting and path names\<close>

lemma str_split_ne: "str_split sep s \<noteq> []"
  by (induction s) (auto split: list.splits)

lemma str_split_append:
  "str_split sep (xs @ sep # ys) = str_split sep xs @ str_split sep ys"
  by (induction xs) (auto simp: str_split_ne split: list.splits)

lemma str_split_free: "sep \<notin> set m \<Longrightarrow> str_split sep m = [m]"
  by (induction m) auto

lemma str_split_pieces: "w \<in> set (str_split sep s) \<Longrightarrow> sep \<notin> set w"
  by (induction s arbitrary: w) (auto split: if_splits list.splits)

text \<open>A path name never contains a separator.\<close>

lemma path_name_no_slash: "CHR ''/'' \<notin> set (path_name p)"
proof (cases "parts p = []")
  case True
  then show ?thesis by (simp add: path_name_def)
next
  case False
  then have "last (parts p) \<in> set (parts p)" by simp
  then have "last (parts p) \<in> set (str_split CHR ''/'' p)" by (simp add: parts_def)
  then show ?thesis using False by (simp add: path_name_def str_split_pieces)
qed

lemma parts_root_vcpkg:
  assumes "CHR ''/'' \<notin> set m"
  shows "parts (''/root/'' @ m @ ''/vcpkg'') =
           ''root'' # (if m = [] \<or> m = ''.'' then [] else [m]) @ [''vcpkg'']"
proof -
  have "''/root/'' @ m @ ''/vcpkg'' = ''/root'' @ CHR ''/'' # (m @ CHR ''/'' # ''vcpkg'')"
    by simp
  then have "str_split CHR ''/'' (''/root/'' @ m @ ''/vcpkg'') =
      str_split CHR ''/'' ''/root'' @ str_split CHR ''/'' m @ str_split CHR ''/'' ''vcpkg''"
    by (simp only: str_split_append)
  also have "\<dots> = [[], ''root'', m, ''vcpkg'']"
    using assms by (simp add: str_split_free)
  finally show ?thesis by (simp add: parts_def)
qed

lemma same_path_root_vcpkg:
  assumes "CHR ''/'' \<notin> set m"
  shows "same_path ''/root/LichtFeld-Studio/vcpkg'' (''/root/'' @ m @ ''/vcpkg'')
           \<longleftrightarrow> m = ''LichtFeld-Studio''"
proof -
  have "parts ''/root/LichtFeld-Studio/vcpkg'' = [''root'', ''LichtFeld-Studio'', ''vcpkg'']"
    using parts_root_vcpkg [of "''LichtFeld-Studio''"] by simp
  then show ?thesis
    using parts_root_vcpkg [OF assms] by (auto simp: same_path_def anchor_def)
qed

subsection \<open>The image expression\<close>

lemma image_expr_workdir: "image_workdir wd (image_expr m) = ''/root/'' @ m"
  by (simp add: image_expr_def from_registry_def env_def run_commands_def workdir_def
      anchor_def)

lemma image_expr_checkout:
  "vcpkg_checkout wd (image_expr m) = Some (''/root/'' @ m @ ''/vcpkg'')"
  by (simp add: vcpkg_checkout_def image_expr_def from_registry_def env_def run_commands_def
      workdir_def anchor_def)

lemma image_expr_vcpkg_root:
  "image_env e (image_expr m) ''VCPKG_ROOT'' = Some ''/root/LichtFeld-Studio/vcpkg''"
  by (simp add: image_expr_def from_registry_def env_def run_commands_def workdir_def)

lemma image_expr_points_at:
  "vcpkg_root_points_at_checkout wd e (image_expr (path_name cwd))
     \<longleftrightarrow> path_name cwd = ''LichtFeld-Studio''"
  using same_path_root_vcpkg [OF path_name_no_slash, of cwd]
  by (simp only: vcpkg_root_points_at_checkout_def image_expr_vcpkg_root image_expr_checkout
      prod.case option.case)

lemma script_Inr: "snd (script debug cwd) = Inr g \<Longrightarrow> image g = image_expr (path_name cwd)"
  by (auto simp: script_def Let_def split: if_splits)


subsection \<open>The assertion on the working directory\<close>




subsection \<open>Working directory and \<^verbatim>\<open>VCPKG_ROOT\<close>\<close>

text \<open>
  C10. Whenever the script yields an image, the working directory of that image is
  \<^verbatim>\<open>/root/\<close> followed by the name of the invoking directory, its \<^verbatim>\<open>VCPKG_ROOT\<close> is the
  fixed string \<^verbatim>\<open>/root/LichtFeld-Studio/vcpkg\<close> whatever that name is, vcpkg is cloned
  into the working directory, and \<^verbatim>\<open>VCPKG_ROOT\<close> names the directory of that checkout
  exactly when the invoking directory is called \<^verbatim>\<open>LichtFeld-Studio\<close>.
\<close>

theorem workdir_and_vcpkg_root:
  assumes "snd (script debug cwd) = Inr g"
  shows "image_workdir wd (image g) = ''/root/'' @ path_name cwd
       \<and> image_env e (image g) ''VCPKG_ROOT'' = Some ''/root/LichtFeld-Studio/vcpkg''
       \<and> vcpkg_checkout wd (image g) = Some (image_workdir wd (image g) @ ''/vcpkg'')
       \<and> (vcpkg_root_points_at_checkout wd e (image g)
            \<longleftrightarrow> path_name cwd = ''LichtFeld-Studio'')"
  using script_Inr [OF assms]
  by (simp add: image_expr_workdir image_expr_vcpkg_root image_expr_checkout
      image_expr_points_at)

theorem workdir_and_vcpkg_root_witness:
  "snd (script True ''/home/user/LichtFeld-Studio'') =
      Inr \<lparr>method_name = ''LichtFeld-Studio'',
            nvs_bench_volume = \<lparr>volume_name = ''nvs-bench'', create_if_missing = True\<rparr>,
            modal_volumes = [(''/nvs-bench'', \<lparr>volume_name = ''nvs-bench'', create_if_missing = True\<rparr>)],
            image = image_expr ''LichtFeld-Studio''\<rparr>
   \<and> image_workdir ''/'' (image_expr ''LichtFeld-Studio'') = ''/root/LichtFeld-Studio''
   \<and> vcpkg_checkout ''/'' (image_expr ''LichtFeld-Studio'') = Some ''/root/LichtFeld-Studio/vcpkg''
   \<and> vcpkg_root_points_at_checkout ''/'' Map.empty (image_expr ''LichtFeld-Studio'')
   \<and> snd (script True ''/home/user/gaussian-splatting'') =
      Inr \<lparr>method_name = ''gaussian-splatting'',
            nvs_bench_volume = \<lparr>volume_name = ''nvs-bench'', create_if_missing = True\<rparr>,
            modal_volumes = [(''/nvs-bench'', \<lparr>volume_name = ''nvs-bench'', create_if_missing = True\<rparr>)],
            image = image_expr ''gaussian-splatting''\<rparr>
   \<and> vcpkg_checkout ''/'' (image_expr ''gaussian-splatting'') = Some ''/root/gaussian-splatting/vcpkg''
   \<and> image_env Map.empty (image_expr ''gaussian-splatting'') ''VCPKG_ROOT'' =
        Some ''/root/LichtFeld-Studio/vcpkg''
   \<and> \<not> vcpkg_root_points_at_checkout ''/'' Map.empty (image_expr ''gaussian-splatting'')"
proof -
  have n: "path_name ''/home/user/LichtFeld-Studio'' = ''LichtFeld-Studio''"
    by (simp add: path_name_def parts_def)
  have s: "snd (script True ''/home/user/LichtFeld-Studio'') =
      Inr \<lparr>method_name = ''LichtFeld-Studio'',
            nvs_bench_volume = \<lparr>volume_name = ''nvs-bench'', create_if_missing = True\<rparr>,
            modal_volumes = [(''/nvs-bench'', \<lparr>volume_name = ''nvs-bench'', create_if_missing = True\<rparr>)],
            image = image_expr ''LichtFeld-Studio''\<rparr>"
    by (simp add: script_def Let_def n)
  have n': "path_name ''/home/user/gaussian-splatting'' = ''gaussian-splatting''"
    by (simp add: path_name_def parts_def)
  have s': "snd (script True ''/home/user/gaussian-splatting'') =
      Inr \<lparr>method_name = ''gaussian-splatting'',
            nvs_bench_volume = \<lparr>volume_name = ''nvs-bench'', create_if_missing = True\<rparr>,
            modal_volumes = [(''/nvs-bench'', \<lparr>volume_name = ''nvs-bench'', create_if_missing = True\<rparr>)],
            image = image_expr ''gaussian-splatting''\<rparr>"
    by (simp add: script_def Let_def n')
  have here: "image_workdir ''/'' (image_expr ''LichtFeld-Studio'') = ''/root/LichtFeld-Studio''
      \<and> vcpkg_checkout ''/'' (image_expr ''LichtFeld-Studio'') = Some ''/root/LichtFeld-Studio/vcpkg''
      \<and> vcpkg_root_points_at_checkout ''/'' Map.empty (image_expr ''LichtFeld-Studio'')"
    using workdir_and_vcpkg_root [OF s, of "''/''" Map.empty] by (simp add: n)
  have there: "vcpkg_checkout ''/'' (image_expr ''gaussian-splatting'') =
        Some ''/root/gaussian-splatting/vcpkg''
      \<and> image_env Map.empty (image_expr ''gaussian-splatting'') ''VCPKG_ROOT'' =
        Some ''/root/LichtFeld-Studio/vcpkg''
      \<and> \<not> vcpkg_root_points_at_checkout ''/'' Map.empty (image_expr ''gaussian-splatting'')"
    using workdir_and_vcpkg_root [OF s', of "''/''" Map.empty] by (simp add: n')
  show ?thesis
    using s s' here there by (simp only: simp_thms)
qed

end
